theory Spec2Isabelle
  imports Main
begin

section \<open>Values, export structure and the target database\<close>

text \<open>
  The importer of \<^verbatim>\<open>src/addons/dexie-export-import/src/import.ts\<close> works on
  untyped JavaScript values. The fragment below is what the rows of an export need:
  \<^verbatim>\<open>undefined\<close>, numbers, strings, arrays and objects. A row of a non-inbound table is
  the array \<^verbatim>\<open>[key, value]\<close>; a row of an inbound table is the value itself.
\<close>

datatype jsval =
    JUndefined
  | JNum int
  | JStr string
  | JArr "jsval list"
  | JObj "(string \<times> jsval) list"

text \<open>
  Every \<^verbatim>\<open>throw new Error(...)\<close> of the source is one constructor, named after the error
  kinds of the specification; the comment gives the message of the source.
  \<open>TypeError\<close> is the error the JavaScript runtime raises itself (a property read on
  \<^verbatim>\<open>undefined\<close>, destructuring or iterating a value that is not iterable). The last
  two are raised by the storage engine, not by the source.
\<close>

datatype error =
    FormatError                     \<comment> \<open>Given file is not a dexie export\<close>
  | UnsupportedVersionError         \<comment> \<open>Format version ... not supported\<close>
  | MalformedExportError string     \<comment> \<open>No data / Missing ... in export file\<close>
  | NameMismatchError               \<comment> \<open>Name differs. ...\<close>
  | VersionMismatchError            \<comment> \<open>Database version differs. ...\<close>
  | MissingTableError string        \<comment> \<open>Exported table ... is missing in installed database\<close>
  | PrimaryKeyMismatchError string  \<comment> \<open>Primary key differs for table ...\<close>
  | AbortedError                    \<comment> \<open>Operation aborted\<close>
  | TypeError
  | InvalidTableError string        \<comment> \<open>thrown by \<^verbatim>\<open>db.table\<close>: Table ... does not exist\<close>
  | StorageError string             \<comment> \<open>a rejection by \<^verbatim>\<open>clear\<close>, \<^verbatim>\<open>bulkAdd\<close> or \<^verbatim>\<open>bulkPut\<close>\<close>

record TableSchema =
  name :: string
  schema :: string
  rowCount :: int

text \<open>
  A row buffer is a JavaScript array carrying the extra property \<^verbatim>\<open>complete\<close>, which the
  streaming parser sets once the closing bracket of the array has been read.
\<close>

record RowBuffer =
  items :: "jsval list"
  complete :: bool

record TableExport =
  tableName :: string
  inbound :: bool
  rows :: "RowBuffer option"      \<comment> \<open>\<open>None\<close>: the key \<^verbatim>\<open>rows\<close> has not been parsed yet\<close>

record DatabaseExport =
  databaseName :: "string option"
  databaseVersion :: "int option"
  tables :: "TableSchema list option"
  data :: "TableExport list option"

text \<open>
  The envelope. Its field \<^verbatim>\<open>data\<close> is called \<open>file_data\<close> here, since \<open>data\<close> is already
  the pending-table queue of \<open>DatabaseExport\<close>.
\<close>

record DexieExportJsonStructure =
  formatName :: "string option"
  formatVersion :: "int option"
  file_data :: "DatabaseExport option"

subsection \<open>The streaming parser\<close>

text \<open>
  Modelled from the spec: the streaming parser \<^verbatim>\<open>JsonStream\<close> (\<^verbatim>\<open>./json-stream\<close> is not
  among the sources). The specification gives \<^verbatim>\<open>pull(byteBudget)\<close>, after which newly
  parsed structure is appended to the mutable \<^verbatim>\<open>result\<close> view, \<^verbatim>\<open>done()\<close> (no more pulls
  will ever be needed) and \<^verbatim>\<open>eof()\<close> (source exhausted); \<^verbatim>\<open>rows\<close> is an append-only buffer
  that is marked complete once the source has delivered every row of the table. The
  source is a list of chunks still to be read, each chunk being the parse events its
  bytes give rise to; the byte budget decides where the chunk boundaries fall and is
  otherwise not looked at.
\<close>

datatype parse_event =
    SetFormatName string
  | SetFormatVersion int
  | OpenData                      \<comment> \<open>the object under the key \<^verbatim>\<open>data\<close> of the envelope\<close>
  | SetDatabaseName string
  | SetDatabaseVersion int
  | SetTables "TableSchema list"
  | OpenQueue                     \<comment> \<open>the array under the key \<^verbatim>\<open>data\<close> of the database export\<close>
  | OpenTable string bool         \<comment> \<open>a new entry of the queue, its rows not yet seen\<close>
  | OpenRows
  | AddRow jsval
  | CloseRows
  | CloseTop                      \<comment> \<open>the closing brace of the envelope\<close>

record JsonStream =
  result :: DexieExportJsonStructure
  pending :: "parse_event list list"
  finished :: bool

definition empty_export :: DatabaseExport where
  "empty_export =
     \<lparr>databaseName = None, databaseVersion = None, tables = None, data = None\<rparr>"

definition on_data :: "(DatabaseExport \<Rightarrow> DatabaseExport) \<Rightarrow> JsonStream \<Rightarrow> JsonStream" where
  "on_data f s =
     (case file_data (result s) of
        None \<Rightarrow> s
      | Some d \<Rightarrow> s\<lparr>result := (result s)\<lparr>file_data := Some (f d)\<rparr>\<rparr>)"

definition on_queue :: "(TableExport list \<Rightarrow> TableExport list) \<Rightarrow> JsonStream \<Rightarrow> JsonStream" where
  "on_queue f s =
     on_data (\<lambda>d. case data d of None \<Rightarrow> d | Some q \<Rightarrow> d\<lparr>data := Some (f q)\<rparr>) s"

text \<open>The entry being parsed is the last one of the queue.\<close>

definition on_last :: "(TableExport \<Rightarrow> TableExport) \<Rightarrow> TableExport list \<Rightarrow> TableExport list" where
  "on_last f q = (case rev q of [] \<Rightarrow> [] | e # es \<Rightarrow> rev es @ [f e])"

definition on_open_rows :: "(RowBuffer \<Rightarrow> RowBuffer) \<Rightarrow> TableExport \<Rightarrow> TableExport" where
  "on_open_rows f e =
     (case rows e of
        None \<Rightarrow> e
      | Some b \<Rightarrow> if complete b then e else e\<lparr>rows := Some (f b)\<rparr>)"

fun parse :: "parse_event \<Rightarrow> JsonStream \<Rightarrow> JsonStream" where
  "parse (SetFormatName n) s = s\<lparr>result := (result s)\<lparr>formatName := Some n\<rparr>\<rparr>"
| "parse (SetFormatVersion v) s = s\<lparr>result := (result s)\<lparr>formatVersion := Some v\<rparr>\<rparr>"
| "parse OpenData s = s\<lparr>result := (result s)\<lparr>file_data := Some empty_export\<rparr>\<rparr>"
| "parse (SetDatabaseName n) s = on_data (\<lambda>d. d\<lparr>databaseName := Some n\<rparr>) s"
| "parse (SetDatabaseVersion v) s = on_data (\<lambda>d. d\<lparr>databaseVersion := Some v\<rparr>) s"
| "parse (SetTables ts) s = on_data (\<lambda>d. d\<lparr>tables := Some ts\<rparr>) s"
| "parse OpenQueue s = on_data (\<lambda>d. d\<lparr>data := Some []\<rparr>) s"
| "parse (OpenTable n i) s =
     on_queue (\<lambda>q. q @ [\<lparr>tableName = n, inbound = i, rows = None\<rparr>]) s"
| "parse OpenRows s =
     on_queue (on_last (\<lambda>e. e\<lparr>rows := Some \<lparr>items = [], complete = False\<rparr>\<rparr>)) s"
| "parse (AddRow r) s =
     on_queue (on_last (on_open_rows (\<lambda>b. b\<lparr>items := items b @ [r]\<rparr>))) s"
| "parse CloseRows s =
     on_queue (on_last (on_open_rows (\<lambda>b. b\<lparr>complete := True\<rparr>))) s"
| "parse CloseTop s = s\<lparr>finished := True\<rparr>"

definition stream_done :: "JsonStream \<Rightarrow> bool" where
  "stream_done s = finished s"

definition stream_eof :: "JsonStream \<Rightarrow> bool" where
  "stream_eof s = (pending s = [])"

definition pull :: "nat \<Rightarrow> JsonStream \<Rightarrow> JsonStream" where
  "pull numBytes s =
     (case pending s of
        [] \<Rightarrow> s
      | c # cs \<Rightarrow> fold parse c (s\<lparr>pending := cs\<rparr>))"

subsection \<open>The target database\<close>

text \<open>
  Modelled from the spec: the storage engine (Dexie's \<^verbatim>\<open>Table\<close> and \<^verbatim>\<open>transaction\<close> are
  not among the sources). The specification gives per-table \<^verbatim>\<open>clear()\<close>,
  \<^verbatim>\<open>bulkAdd(values, keys?)\<close>, which fails on duplicate keys, \<^verbatim>\<open>bulkPut(values, keys?)\<close>,
  access to the declared primary key source string, and a transaction wrapper that
  runs a body atomically. What a call does to a table, and whether the engine rejects
  it, is a parameter of the model (the field \<open>engine\<close> below): it is given the table
  and the call and answers with the table afterwards or with an error.
\<close>

datatype write_op =
    Clear
  | BulkAdd "jsval list" "jsval list option"    \<comment> \<open>values, keys\<close>
  | BulkPut "jsval list" "jsval list option"

record Table =
  primKey_src :: string
  received :: "write_op list"

record Dexie =
  db_name :: string
  db_verno :: int
  db_tables :: "(string \<times> Table) list"

text \<open>
  What the source imports from files that are not among the sources is a parameter:
  the constant \<^verbatim>\<open>VERSION\<close> of \<^verbatim>\<open>./json-structure\<close>, the codec \<^verbatim>\<open>TSON.revive\<close> of
  \<^verbatim>\<open>./tson\<close>, and the write operations of the storage engine.
\<close>

record env =
  VERSION :: int
  revive :: "jsval \<Rightarrow> jsval"
  engine :: "Table \<Rightarrow> write_op \<Rightarrow> error + Table"

text \<open>
  \<^verbatim>\<open>db.table(name)\<close> is the engine's as well, and the specification does not describe
  it. Dexie throws \<open>InvalidTableError\<close> for a name the database does not declare; for
  a declared name it returns the table object, which is truthy. The result is kept
  as an option, since the source goes on to test \<^verbatim>\<open>!table\<close>; it is never \<open>None\<close>.
\<close>

definition db_table :: "Dexie \<Rightarrow> string \<Rightarrow> error + Table option" where
  "db_table db n =
     (case map_of (db_tables db) n of
        None \<Rightarrow> Inl (InvalidTableError n)
      | Some t \<Rightarrow> Inr (Some t))"

definition store_table :: "string \<Rightarrow> Table \<Rightarrow> Dexie \<Rightarrow> Dexie" where
  "store_table n t db =
     db\<lparr>db_tables := map (\<lambda>(m, u). if m = n then (m, t) else (m, u)) (db_tables db)\<rparr>"

definition clear :: "env \<Rightarrow> Table \<Rightarrow> error + Table" where
  "clear e t = engine e t Clear"

definition bulkAdd :: "env \<Rightarrow> jsval list \<Rightarrow> jsval list option \<Rightarrow> Table \<Rightarrow> error + Table" where
  "bulkAdd e vs ks t = engine e t (BulkAdd vs ks)"

definition bulkPut :: "env \<Rightarrow> jsval list \<Rightarrow> jsval list option \<Rightarrow> Table \<Rightarrow> error + Table" where
  "bulkPut e vs ks t = engine e t (BulkPut vs ks)"

text \<open>
  Two engines. \<open>recording\<close> accepts every call and appends it to the calls the table
  has received, so that a run shows what the importer handed over, in order.
  \<open>length_checking\<close> does the same, but rejects values and keys of different length, as
  Dexie does.
\<close>

definition recording :: "Table \<Rightarrow> write_op \<Rightarrow> error + Table" where
  "recording t w = Inr (t\<lparr>received := received t @ [w]\<rparr>)"

fun keys_fit :: "write_op \<Rightarrow> bool" where
  "keys_fit Clear = True"
| "keys_fit (BulkAdd vs ks) = (case ks of None \<Rightarrow> True | Some k \<Rightarrow> length k = length vs)"
| "keys_fit (BulkPut vs ks) = (case ks of None \<Rightarrow> True | Some k \<Rightarrow> length k = length vs)"

definition length_checking :: "Table \<Rightarrow> write_op \<Rightarrow> error + Table" where
  "length_checking t w =
     (if keys_fit w then recording t w else Inl (StorageError ''InvalidArgument''))"

section \<open>The importer\<close>

record ImportProgress =
  totalTables :: nat
  completedTables :: nat
  totalRows :: int
  completedRows :: int
  done_flag :: bool               \<comment> \<open>the field \<^verbatim>\<open>done\<close>\<close>

text \<open>
  The observer is a JavaScript closure: what it answers may depend on its earlier
  invocations. It is therefore given every snapshot it has been handed so far, the
  current one last. The filter is \<^verbatim>\<open>(table, value, key?)\<close>; a call with two arguments
  leaves \<^verbatim>\<open>key\<close> undefined.
\<close>

record ImportOptions =
  acceptMissingTables :: bool
  acceptVersionDiff :: bool
  acceptNameDiff :: bool
  acceptChangedPrimaryKey :: bool
  overwriteValues :: bool
  clearTablesBeforeImport :: bool
  noTransaction :: bool
  numKilobytesPerChunk :: "nat option"
  filter_opt :: "(string \<Rightarrow> jsval \<Rightarrow> jsval \<Rightarrow> bool) option"     \<comment> \<open>the option \<^verbatim>\<open>filter\<close>\<close>
  progressCallback :: "(ImportProgress list \<Rightarrow> bool) option"

subsection \<open>The Stream Loader\<close>

definition header_incomplete :: "JsonStream \<Rightarrow> bool" where
  \<comment> \<open>\<^verbatim>\<open>!stream.result.data || !stream.result.data.data\<close>; an array is truthy\<close>
  "header_incomplete s =
     (case file_data (result s) of None \<Rightarrow> True | Some d \<Rightarrow> data d = None)"

lemma pending_parse: "pending (parse e s) = pending s"
  by (cases e) (simp_all add: on_queue_def on_data_def split: option.splits)

lemma pending_fold_parse: "pending (fold parse c s) = pending s"
  by (induction c arbitrary: s) (simp_all add: pending_parse)

lemma pending_pull: "pending (pull n s) = tl (pending s)"
  by (simp add: pull_def pending_fold_parse split: list.splits)

function load_loop :: "nat \<Rightarrow> JsonStream \<Rightarrow> JsonStream" where
  "load_loop CHUNK_SIZE stream =
     (if \<not> stream_eof stream \<and> header_incomplete stream
      then load_loop CHUNK_SIZE (pull CHUNK_SIZE stream)
      else stream)"
  by pat_completeness auto
termination
  by (relation "measure (\<lambda>(n, s). length (pending s))")
     (auto simp: pending_pull stream_eof_def)

declare load_loop.simps [simp del]

text \<open>
  JavaScript's \<^verbatim>\<open>!x\<close>: a string is falsy when it is missing or empty, a number when it
  is missing or zero.
\<close>

definition falsy_string :: "string option \<Rightarrow> bool" where
  "falsy_string x = (case x of None \<Rightarrow> True | Some s \<Rightarrow> s = [])"

definition falsy_number :: "int option \<Rightarrow> bool" where
  "falsy_number x = (case x of None \<Rightarrow> True | Some v \<Rightarrow> v = 0)"

definition exceeds :: "int option \<Rightarrow> int \<Rightarrow> bool" where
  \<comment> \<open>\<^verbatim>\<open>x > y\<close>, which is false when \<^verbatim>\<open>x\<close> is undefined\<close>
  "exceeds x y = (case x of None \<Rightarrow> False | Some v \<Rightarrow> v > y)"

definition loadUntilWeGotEnoughData :: "env \<Rightarrow> JsonStream \<Rightarrow> nat \<Rightarrow> error + JsonStream" where
  "loadUntilWeGotEnoughData e exportedData CHUNK_SIZE =
     (let stream = load_loop CHUNK_SIZE exportedData;
          dbExportFile = result stream
      in if formatName dbExportFile \<noteq> Some ''dexie'' then Inl FormatError
         else if exceeds (formatVersion dbExportFile) (VERSION e) then Inl UnsupportedVersionError
         else case file_data dbExportFile of
                None \<Rightarrow> Inl (MalformedExportError ''data'')
              | Some d \<Rightarrow>
                  if falsy_string (databaseName d) then Inl (MalformedExportError ''databaseName'')
                  else if falsy_number (databaseVersion d)
                  then Inl (MalformedExportError ''databaseVersion'')
                  else if tables d = None then Inl (MalformedExportError ''tables'')
                  else Inr stream)"

subsection \<open>One batch\<close>

text \<open>
  \<^verbatim>\<open>Array.prototype.map\<close> returns a fresh array holding the mapped elements: a property
  set on the array it is called on, such as \<^verbatim>\<open>complete\<close>, is not carried over and reads
  as \<^verbatim>\<open>undefined\<close> on the result.
\<close>

definition js_map :: "(jsval \<Rightarrow> jsval) \<Rightarrow> RowBuffer \<Rightarrow> RowBuffer" where
  "js_map f b = \<lparr>items = map f (items b), complete = False\<rparr>"

definition element :: "jsval list \<Rightarrow> nat \<Rightarrow> jsval" where
  "element xs i = (if i < length xs then xs ! i else JUndefined)"

text \<open>
  \<^verbatim>\<open>row[i]\<close>: reading a property of \<^verbatim>\<open>undefined\<close> throws; a number has no such
  property; on an object it is the property named by the decimal numeral of \<^verbatim>\<open>i\<close>,
  the last one of that name when the object was written with several.
\<close>

definition digit :: "nat \<Rightarrow> char" where
  "digit d = ''0123456789'' ! d"

function decimal :: "nat \<Rightarrow> string" where
  "decimal n = (if n < 10 then [digit n] else decimal (n div 10) @ [digit (n mod 10)])"
  by pat_completeness auto
termination
  by (relation "measure (\<lambda>n. n)") auto

declare decimal.simps [simp del]

definition property :: "(string \<times> jsval) list \<Rightarrow> string \<Rightarrow> jsval" where
  "property kvs k = (case map_of (rev kvs) k of None \<Rightarrow> JUndefined | Some v \<Rightarrow> v)"

fun js_index :: "nat \<Rightarrow> jsval \<Rightarrow> error + jsval" where
  "js_index i JUndefined = Inl TypeError"
| "js_index i (JNum n) = Inr JUndefined"
| "js_index i (JStr s) = Inr (element (map (\<lambda>c. JStr [c]) s) i)"
| "js_index i (JArr xs) = Inr (element xs i)"
| "js_index i (JObj kvs) = Inr (property kvs (decimal i))"

text \<open>The parameter pattern \<^verbatim>\<open>([key, value])\<close>: only arrays and strings are iterable.\<close>

fun destructure :: "jsval \<Rightarrow> error + jsval \<times> jsval" where
  "destructure (JArr xs) = Inr (element xs 0, element xs 1)"
| "destructure (JStr s) =
     Inr (element (map (\<lambda>c. JStr [c]) s) 0, element (map (\<lambda>c. JStr [c]) s) 1)"
| "destructure v = Inl TypeError"

fun filter_pairs :: "(jsval \<Rightarrow> jsval \<Rightarrow> bool) \<Rightarrow> jsval list \<Rightarrow> error + jsval list" where
  "filter_pairs p [] = Inr []"
| "filter_pairs p (row # rest) =
     (case destructure row of
        Inl e \<Rightarrow> Inl e
      | Inr (key, val) \<Rightarrow>
          (case filter_pairs p rest of
             Inl e \<Rightarrow> Inl e
           | Inr kept \<Rightarrow> Inr (if p val key then row # kept else kept)))"

fun index_all :: "nat \<Rightarrow> jsval list \<Rightarrow> error + jsval list" where
  "index_all i [] = Inr []"
| "index_all i (row # rest) =
     (case js_index i row of
        Inl e \<Rightarrow> Inl e
      | Inr x \<Rightarrow> (case index_all i rest of Inl e \<Rightarrow> Inl e | Inr xs \<Rightarrow> Inr (x # xs)))"

text \<open>Lines 105 to 110 of the source: \<^verbatim>\<open>filteredRows\<close>.\<close>

definition filteredRows ::
  "ImportOptions \<Rightarrow> string \<Rightarrow> bool \<Rightarrow> jsval list \<Rightarrow> error + jsval list" where
  "filteredRows options tn inb rs =
     (case filter_opt options of
        None \<Rightarrow> Inr rs
      | Some f \<Rightarrow>
          if inb then Inr (filter (\<lambda>v. f tn v JUndefined) rs)
          else filter_pairs (\<lambda>v k. f tn v k) rs)"

text \<open>
  Lines 111 to 113: \<^verbatim>\<open>[keys, values]\<close>. For a table that is not inbound the keys are
  taken from \<^verbatim>\<open>filteredRows\<close> and the values from \<^verbatim>\<open>rows\<close>.
\<close>

definition keys_values ::
  "ImportOptions \<Rightarrow> string \<Rightarrow> bool \<Rightarrow> jsval list \<Rightarrow> error + jsval list option \<times> jsval list" where
  "keys_values options tn inb rs =
     (case filteredRows options tn inb rs of
        Inl e \<Rightarrow> Inl e
      | Inr fr \<Rightarrow>
          if inb then Inr (None, fr)
          else (case index_all 0 fr of
                  Inl e \<Rightarrow> Inl e
                | Inr ks \<Rightarrow>
                    (case index_all 1 rs of
                       Inl e \<Rightarrow> Inl e
                     | Inr vs \<Rightarrow> Inr (Some ks, vs))))"

subsection \<open>The import loop\<close>

record import_state =
  st_db :: Dexie
  st_progress :: ImportProgress
  st_observed :: "ImportProgress list"    \<comment> \<open>the snapshots handed to the observer so far\<close>

type_synonym step = "(error \<times> import_state) + import_state"

definition notify :: "ImportOptions \<Rightarrow> import_state \<Rightarrow> step" where
  \<comment> \<open>\<^verbatim>\<open>if (progressCallback) { if (progressCallback(progress)) throw ... }\<close>\<close>
  "notify options s =
     (case progressCallback options of
        None \<Rightarrow> Inr s
      | Some cb \<Rightarrow>
          (let s' = s\<lparr>st_observed := st_observed s @ [st_progress s]\<rparr>
           in if cb (st_observed s') then Inl (AbortedError, s') else Inr s'))"

definition first_field :: "string \<Rightarrow> string" where
  \<comment> \<open>\<^verbatim>\<open>tableSchemaStr.split(',')[0]\<close>\<close>
  "first_field str = takeWhile (\<lambda>c. c \<noteq> CHR '','') str"

text \<open>
  Lines 104 to 127, the batch itself. \<open>mapped\<close> is the local \<^verbatim>\<open>rows\<close> of the source, the
  result of \<^verbatim>\<open>tableExport.rows.map(...)\<close>; the closing \<^verbatim>\<open>rows.splice(0, rows.length)\<close>
  empties that local array, which nothing reads afterwards, and leaves
  \<^verbatim>\<open>tableExport.rows\<close> as it is.
\<close>

definition writeRows ::
  "env \<Rightarrow> ImportOptions \<Rightarrow> TableExport \<Rightarrow> RowBuffer \<Rightarrow> Table \<Rightarrow> import_state \<Rightarrow> step" where
  "writeRows e options tableExport buf tbl s1 =
     (let tn = tableName tableExport;
          mapped = js_map (revive e) buf
      in case keys_values options tn (inbound tableExport) (items mapped) of
           Inl err \<Rightarrow> Inl (err, s1)
         | Inr (keys, values) \<Rightarrow>
             (case (if clearTablesBeforeImport options
                    then (case clear e tbl of
                            Inl err \<Rightarrow> Inl (err, s1)
                          | Inr t1 \<Rightarrow> Inr (t1, s1\<lparr>st_db := store_table tn t1 (st_db s1)\<rparr>))
                    else Inr (tbl, s1)) of
                Inl x \<Rightarrow> Inl x
              | Inr (t1, s2) \<Rightarrow>
                  (case (if overwriteValues options
                         then bulkPut e values keys t1
                         else bulkAdd e values keys t1) of
                     Inl err \<Rightarrow> Inl (err, s2)
                   | Inr t2 \<Rightarrow>
                       (let p0 = st_progress s2;
                            p1 = p0\<lparr>completedRows :=
                                   completedRows p0 + int (length (items mapped))\<rparr>;
                            p2 = (if complete mapped
                                  then p1\<lparr>completedTables := completedTables p1 + 1\<rparr>
                                  else p1)
                        in Inr (s2\<lparr>st_db := store_table tn t2 (st_db s2),
                                   st_progress := p2\<rparr>)))))"

text \<open>
  Lines 87 to 103, the body of the \<^verbatim>\<open>for\<close> loop after its two guards: the observer, the
  target table (line 92, where \<^verbatim>\<open>db.table\<close> may throw), the schema lookup (line 93) and
  the two per-table checks; then the batch.
\<close>

definition importTable ::
  "env \<Rightarrow> ImportOptions \<Rightarrow> DatabaseExport \<Rightarrow> TableExport \<Rightarrow> RowBuffer \<Rightarrow> import_state \<Rightarrow> step" where
  "importTable e options dbExport tableExport buf s =
     (case notify options s of
        Inl x \<Rightarrow> Inl x
      | Inr s1 \<Rightarrow>
          (let tn = tableName tableExport
           in case db_table (st_db s1) tn of
                Inl err \<Rightarrow> Inl (err, s1)
              | Inr table \<Rightarrow>
                  (case tables dbExport of
                     None \<Rightarrow> Inl (TypeError, s1)
                   | Some ts \<Rightarrow>
                       (case filter (\<lambda>t. name t = tn) ts of
                          [] \<Rightarrow> Inl (TypeError, s1)
                        | t0 # _ \<Rightarrow>
                            (case table of
                               None \<Rightarrow>
                                 if \<not> acceptMissingTables options
                                 then Inl (MissingTableError tn, s1)
                                 else Inr s1
                             | Some tbl \<Rightarrow>
                                 if \<not> acceptChangedPrimaryKey options \<and>
                                    first_field (schema t0) \<noteq> primKey_src tbl
                                 then Inl (PrimaryKeyMismatchError tn, s1)
                                 else writeRows e options tableExport buf tbl s1)))))"

text \<open>
  The \<^verbatim>\<open>for (const tableExport of dbExport.data)\<close> loop: \<^verbatim>\<open>break\<close> at an entry without
  rows, \<^verbatim>\<open>continue\<close> at an entry that is complete and empty.
\<close>

fun importTables ::
  "env \<Rightarrow> ImportOptions \<Rightarrow> DatabaseExport \<Rightarrow> TableExport list \<Rightarrow> import_state \<Rightarrow> step" where
  "importTables e options dbExport [] s = Inr s"
| "importTables e options dbExport (tableExport # rest) s =
     (case rows tableExport of
        None \<Rightarrow> Inr s
      | Some buf \<Rightarrow>
          if complete buf \<and> items buf = [] then importTables e options dbExport rest s
          else (case importTable e options dbExport tableExport buf s of
                  Inl x \<Rightarrow> Inl x
                | Inr s1 \<Rightarrow> importTables e options dbExport rest s1))"

text \<open>
  Lines 131 to 134: \<^verbatim>\<open>while (data.length > 0 && data[0].rows.complete) data.splice(0, 1)\<close>.
  Reading \<^verbatim>\<open>complete\<close> of rows that are still undefined throws.
\<close>

fun dropCompleted :: "TableExport list \<Rightarrow> error + TableExport list" where
  "dropCompleted [] = Inr []"
| "dropCompleted (first # rest) =
     (case rows first of
        None \<Rightarrow> Inl TypeError
      | Some buf \<Rightarrow> if complete buf then dropCompleted rest else Inr (first # rest))"

lemma pending_on_queue: "pending (on_queue f s) = pending s"
  by (simp add: on_queue_def on_data_def split: option.splits)

function importAll ::
  "env \<Rightarrow> ImportOptions \<Rightarrow> nat \<Rightarrow> JsonStream \<Rightarrow> import_state \<Rightarrow> step" where
  "importAll e options CHUNK_SIZE jsonStream s =
     (case file_data (result jsonStream) of
        None \<Rightarrow> Inl (TypeError, s)
      | Some dbExport \<Rightarrow>
          (case data dbExport of
             None \<Rightarrow> Inl (TypeError, s)
           | Some queue \<Rightarrow>
               (case importTables e options dbExport queue s of
                  Inl x \<Rightarrow> Inl x
                | Inr s1 \<Rightarrow>
                    (case dropCompleted queue of
                       Inl err \<Rightarrow> Inl (err, s1)
                     | Inr queue' \<Rightarrow>
                         (let js1 = on_queue (\<lambda>_. queue') jsonStream
                          in if \<not> stream_done js1 \<and> \<not> stream_eof js1
                             then (let js2 = pull CHUNK_SIZE js1
                                   in if \<not> stream_done js2 \<and> \<not> stream_eof js2
                                      then importAll e options CHUNK_SIZE js2 s1
                                      else Inr s1)
                             else Inr s1)))))"
  by pat_completeness auto
termination
  by (relation "measure (\<lambda>(e, options, n, js, s). length (pending js))")
     (auto simp: pending_pull pending_on_queue stream_eof_def)

declare importAll.simps [simp del]

text \<open>
  Modelled from the spec: the transaction wrapper \<^verbatim>\<open>db.transaction('rw', db.tables, body)\<close>
  of the storage engine. When the body fails, every write it performed is rolled back:
  the database is the one the transaction started from. What the body did to the
  memory of the program (the progress record, the observer) stays.
\<close>

definition transaction :: "Dexie \<Rightarrow> step \<Rightarrow> step" where
  "transaction db r =
     (case r of Inl (err, s) \<Rightarrow> Inl (err, s\<lparr>st_db := db\<rparr>) | Inr s \<Rightarrow> Inr s)"

datatype outcome =
    Failed (failure: error) (db_after: Dexie) (observed: "ImportProgress list")
  | Resolved (db_after: Dexie) (final_progress: ImportProgress) (observed: "ImportProgress list")

definition failed :: "error \<times> import_state \<Rightarrow> outcome" where
  "failed x = Failed (fst x) (st_db (snd x)) (st_observed (snd x))"

definition chunk_size :: "ImportOptions \<Rightarrow> nat" where
  \<comment> \<open>\<^verbatim>\<open>(options.numKilobytesPerChunk || 512) * 1024\<close>\<close>
  "chunk_size options =
     (case numKilobytesPerChunk options of
        None \<Rightarrow> 512
      | Some k \<Rightarrow> if k = 0 then 512 else k) * 1024"

definition importInto :: "env \<Rightarrow> Dexie \<Rightarrow> JsonStream \<Rightarrow> ImportOptions \<Rightarrow> outcome" where
  "importInto e db exportedData options =
     (let CHUNK_SIZE = chunk_size options
      in case loadUntilWeGotEnoughData e exportedData CHUNK_SIZE of
           Inl err \<Rightarrow> Failed err db []
         | Inr jsonStream \<Rightarrow>
             (case file_data (result jsonStream) of
                None \<Rightarrow> Failed TypeError db []
              | Some dbExport \<Rightarrow>
                  if \<not> acceptNameDiff options \<and> Some (db_name db) \<noteq> databaseName dbExport
                  then Failed NameMismatchError db []
                  else if \<not> acceptVersionDiff options \<and>
                          Some (db_verno db) \<noteq> databaseVersion dbExport
                  then Failed VersionMismatchError db []
                  else
                    (case tables dbExport of
                       None \<Rightarrow> Failed TypeError db []
                     | Some ts \<Rightarrow>
                         (let progress =
                                \<lparr>totalTables = length ts,
                                 completedTables = 0,
                                 totalRows = foldl (\<lambda>p c. p + rowCount c) 0 ts,
                                 completedRows = 0,
                                 done_flag = False\<rparr>;
                              s0 = \<lparr>st_db = db, st_progress = progress, st_observed = []\<rparr>
                          in case notify options s0 of
                               Inl x \<Rightarrow> failed x
                             | Inr s1 \<Rightarrow>
                                 (case (if noTransaction options
                                        then importAll e options CHUNK_SIZE jsonStream s1
                                        else transaction db
                                               (importAll e options CHUNK_SIZE jsonStream s1)) of
                                    Inl x \<Rightarrow> failed x
                                  | Inr s2 \<Rightarrow>
                                      (let s3 = s2\<lparr>st_progress :=
                                                    (st_progress s2)\<lparr>done_flag := True\<rparr>\<rparr>
                                       in case notify options s3 of
                                            Inl x \<Rightarrow> failed x
                                          | Inr s4 \<Rightarrow>
                                              Resolved (st_db s4) (st_progress s4)
                                                (st_observed s4)))))))"

section \<open>Concrete exports\<close>

definition id_env :: env where
  "id_env = \<lparr>VERSION = 1, revive = (\<lambda>v. v), engine = recording\<rparr>"

definition strict_options :: ImportOptions where
  "strict_options =
     \<lparr>acceptMissingTables = False, acceptVersionDiff = False, acceptNameDiff = False,
      acceptChangedPrimaryKey = False, overwriteValues = False,
      clearTablesBeforeImport = False, noTransaction = False, numKilobytesPerChunk = None,
      filter_opt = None, progressCallback = None\<rparr>"

definition unread :: "parse_event list list \<Rightarrow> JsonStream" where
  "unread chunks =
     \<lparr>result = \<lparr>formatName = None, formatVersion = None, file_data = None\<rparr>,
      pending = chunks, finished = False\<rparr>"

definition header :: "string \<Rightarrow> TableSchema list \<Rightarrow> parse_event list" where
  "header n ts =
     [SetFormatName ''dexie'', SetFormatVersion 1, OpenData, SetDatabaseName n,
      SetDatabaseVersion 1, SetTables ts, OpenQueue]"

definition db1 :: Dexie where
  "db1 = \<lparr>db_name = ''db1'', db_verno = 1,
          db_tables = [(''t'', \<lparr>primKey_src = ''id'', received = []\<rparr>)]\<rparr>"

definition row :: "int \<Rightarrow> jsval" where
  "row i = JObj [(''id'', JNum i)]"

lemmas run_defs =
  load_loop.simps importAll.simps importInto_def loadUntilWeGotEnoughData_def chunk_size_def
  stream_eof_def stream_done_def header_incomplete_def pull_def on_queue_def on_data_def
  on_last_def on_open_rows_def empty_export_def exceeds_def falsy_string_def
  falsy_number_def notify_def transaction_def failed_def importTable_def writeRows_def keys_values_def
  filteredRows_def js_map_def db_table_def store_table_def first_field_def bulkPut_def
  bulkAdd_def clear_def recording_def element_def

lemmas example_defs = id_env_def strict_options_def unread_def header_def db1_def row_def

section \<open>Properties\<close>

text \<open>
  C7. For every export whose stated database name differs from the name of the target
  database, \<open>importInto\<close> without the option \<open>acceptNameDiff\<close> fails with
  \<open>NameMismatchError\<close>; the database it leaves behind is the one it was given and the
  observer has not been invoked: the check runs before anything is written.
\<close>

theorem name_mismatch_rejected:
  assumes "loadUntilWeGotEnoughData e js (chunk_size options) = Inr js'"
    and "file_data (result js') = Some dbe"
    and "databaseName dbe \<noteq> Some (db_name db)"
    and "\<not> acceptNameDiff options"
  shows "importInto e db js options = Failed NameMismatchError db []"
  using assms by (simp add: importInto_def)

theorem name_mismatch_rejected_witness:
  "importInto id_env (db1\<lparr>db_name := ''B''\<rparr>)
     (unread [header ''A'' [\<lparr>name = ''t'', schema = ''id'', rowCount = 1\<rparr>] @
              [OpenTable ''t'' True, OpenRows, AddRow (row 1), CloseRows, CloseTop]])
     strict_options
   = Failed NameMismatchError (db1\<lparr>db_name := ''B''\<rparr>) []"
proof -
  let ?js = "unread [header ''A'' [\<lparr>name = ''t'', schema = ''id'', rowCount = 1\<rparr>] @
              [OpenTable ''t'' True, OpenRows, AddRow (row 1), CloseRows, CloseTop]]"
  let ?dbe = "\<lparr>databaseName = Some ''A'', databaseVersion = Some 1,
               tables = Some [\<lparr>name = ''t'', schema = ''id'', rowCount = 1\<rparr>],
               data = Some [\<lparr>tableName = ''t'', inbound = True,
                             rows = Some \<lparr>items = [row 1], complete = True\<rparr>\<rparr>]\<rparr>"
  let ?js' = "\<lparr>result = \<lparr>formatName = Some ''dexie'', formatVersion = Some 1,
                          file_data = Some ?dbe\<rparr>,
               pending = [], finished = True\<rparr>"
  have 1: "loadUntilWeGotEnoughData id_env ?js (chunk_size strict_options) = Inr ?js'"
    by (simp add: run_defs example_defs)
  have 2: "file_data (result ?js') = Some ?dbe" by simp
  have 3: "databaseName ?dbe \<noteq> Some (db_name (db1\<lparr>db_name := ''B''\<rparr>))" by simp
  have 4: "\<not> acceptNameDiff strict_options" by (simp add: strict_options_def)
  show ?thesis by (rule name_mismatch_rejected [OF 1 2 3 4])
qed


definition read_header :: "DexieExportJsonStructure \<Rightarrow> JsonStream" where
  "read_header f = \<lparr>result = f, pending = [], finished = False\<rparr>"

definition good_export :: DatabaseExport where
  "good_export =
     \<lparr>databaseName = Some ''db1'', databaseVersion = Some 1, tables = Some [], data = Some []\<rparr>"

definition good_file :: DexieExportJsonStructure where
  "good_file = \<lparr>formatName = Some ''dexie'', formatVersion = Some 1, file_data = Some good_export\<rparr>"

lemmas header_defs =
  read_header_def good_export_def good_file_def id_env_def stream_eof_def exceeds_def
  falsy_string_def falsy_number_def

text \<open>
  C8, as the code has it. The Stream Loader pulls until the header is there, then
  checks in this order: a format marker other than the expected one fails with
  \<open>FormatError\<close>; otherwise a format version above the maximum supported fails with
  \<open>UnsupportedVersionError\<close>; otherwise a missing \<open>data\<close>, a \<open>databaseName\<close> that is
  missing or the empty string, a \<open>databaseVersion\<close> that is missing or zero, a missing
  \<open>tables\<close>, in this order, fail with \<open>MalformedExportError\<close> naming the field;
  otherwise the loader returns the stream it has pulled from, still live.
\<close>

theorem header_validation:
  assumes "result (load_loop n js) = f"
  shows
    "(formatName f \<noteq> Some ''dexie'' \<longrightarrow>
        loadUntilWeGotEnoughData e js n = Inl FormatError) \<and>
     (formatName f = Some ''dexie'' \<and> exceeds (formatVersion f) (VERSION e) \<longrightarrow>
        loadUntilWeGotEnoughData e js n = Inl UnsupportedVersionError) \<and>
     (formatName f = Some ''dexie'' \<and> \<not> exceeds (formatVersion f) (VERSION e) \<longrightarrow>
        (file_data f = None \<longrightarrow>
           loadUntilWeGotEnoughData e js n = Inl (MalformedExportError ''data'')) \<and>
        (\<forall>d. file_data f = Some d \<longrightarrow>
           (falsy_string (databaseName d) \<longrightarrow>
              loadUntilWeGotEnoughData e js n = Inl (MalformedExportError ''databaseName'')) \<and>
           (\<not> falsy_string (databaseName d) \<and> falsy_number (databaseVersion d) \<longrightarrow>
              loadUntilWeGotEnoughData e js n = Inl (MalformedExportError ''databaseVersion'')) \<and>
           (\<not> falsy_string (databaseName d) \<and> \<not> falsy_number (databaseVersion d) \<and>
            tables d = None \<longrightarrow>
              loadUntilWeGotEnoughData e js n = Inl (MalformedExportError ''tables'')) \<and>
           (\<not> falsy_string (databaseName d) \<and> \<not> falsy_number (databaseVersion d) \<and>
            tables d \<noteq> None \<longrightarrow>
              loadUntilWeGotEnoughData e js n = Inr (load_loop n js))))"
  using assms by (auto simp: loadUntilWeGotEnoughData_def Let_def)

theorem header_validation_witness:
  "loadUntilWeGotEnoughData id_env (read_header (good_file\<lparr>formatName := Some ''json''\<rparr>)) 1024
     = Inl FormatError \<and>
   loadUntilWeGotEnoughData id_env (read_header (good_file\<lparr>formatVersion := Some 2\<rparr>)) 1024
     = Inl UnsupportedVersionError \<and>
   loadUntilWeGotEnoughData id_env (read_header (good_file\<lparr>file_data := None\<rparr>)) 1024
     = Inl (MalformedExportError ''data'') \<and>
   loadUntilWeGotEnoughData id_env
       (read_header (good_file\<lparr>file_data := Some (good_export\<lparr>databaseName := None\<rparr>)\<rparr>)) 1024
     = Inl (MalformedExportError ''databaseName'') \<and>
   loadUntilWeGotEnoughData id_env
       (read_header (good_file\<lparr>file_data := Some (good_export\<lparr>databaseVersion := None\<rparr>)\<rparr>)) 1024
     = Inl (MalformedExportError ''databaseVersion'') \<and>
   loadUntilWeGotEnoughData id_env
       (read_header (good_file\<lparr>file_data := Some (good_export\<lparr>tables := None\<rparr>)\<rparr>)) 1024
     = Inl (MalformedExportError ''tables'') \<and>
   loadUntilWeGotEnoughData id_env (read_header good_file) 1024 = Inr (read_header good_file)"
proof -
  have loaded: "load_loop 1024 (read_header f) = read_header f" for f
    by (simp add: load_loop.simps read_header_def stream_eof_def)
  note v = header_validation [where e = id_env and n = 1024, OF refl]
  show ?thesis
    using v [of "read_header (good_file\<lparr>formatName := Some ''json''\<rparr>)"]
      v [of "read_header (good_file\<lparr>formatVersion := Some 2\<rparr>)"]
      v [of "read_header (good_file\<lparr>file_data := None\<rparr>)"]
      v [of "read_header (good_file\<lparr>file_data := Some (good_export\<lparr>databaseName := None\<rparr>)\<rparr>)"]
      v [of "read_header (good_file\<lparr>file_data := Some (good_export\<lparr>databaseVersion := None\<rparr>)\<rparr>)"]
      v [of "read_header (good_file\<lparr>file_data := Some (good_export\<lparr>tables := None\<rparr>)\<rparr>)"]
      v [of "read_header good_file"]
    unfolding loaded
    by (simp add: header_defs)
qed

text \<open>
  C8 as stated lets the loader return the stream whenever none of the four fields is
  missing. An export whose database name is the empty string has all four, and is
  rejected: the source tests \<^verbatim>\<open>!dbExportFile.data.databaseName\<close>.
\<close>

theorem empty_name_is_rejected:
  "file_data (result (load_loop 1024
       (read_header (good_file\<lparr>file_data := Some (good_export\<lparr>databaseName := Some ''''\<rparr>)\<rparr>))))
     = Some \<lparr>databaseName = Some '''', databaseVersion = Some 1, tables = Some [],
             data = Some []\<rparr> \<and>
   loadUntilWeGotEnoughData id_env
       (read_header (good_file\<lparr>file_data := Some (good_export\<lparr>databaseName := Some ''''\<rparr>)\<rparr>)) 1024
     = Inl (MalformedExportError ''databaseName'')"
  by (simp add: load_loop.simps loadUntilWeGotEnoughData_def header_defs)

definition t_schema :: "int \<Rightarrow> TableSchema list" where
  "t_schema n = [\<lparr>name = ''t'', schema = ''id'', rowCount = n\<rparr>]"

definition kv_db :: Dexie where
  "kv_db = \<lparr>db_name = ''db1'', db_verno = 1,
            db_tables = [(''kv'', \<lparr>primKey_src = '''', received = []\<rparr>)]\<rparr>"

definition kv_export :: JsonStream where
  "kv_export =
     unread [header ''db1'' [\<lparr>name = ''kv'', schema = '''', rowCount = 2\<rparr>] @
             [OpenTable ''kv'' False, OpenRows,
              AddRow (JArr [JNum 1, JStr ''a'']), AddRow (JArr [JNum 2, JStr ''b'']),
              CloseRows, CloseTop]]"

definition not_key_1 :: "string \<Rightarrow> jsval \<Rightarrow> jsval \<Rightarrow> bool" where
  "not_key_1 t v k = (k \<noteq> JNum 1)"

text \<open>
  C1 asks that, with a filter configured, the rows written are exactly the buffered
  rows the predicate accepts. For a table that is not inbound the source filters the
  keys and takes the values from the unfiltered \<^verbatim>\<open>rows\<close>: with the rows \<^verbatim>\<open>[1, "a"]\<close> and
  \<^verbatim>\<open>[2, "b"]\<close> and a filter that rejects key 1, the engine is handed the values
  \<^verbatim>\<open>"a", "b"\<close> and the single key 2.
\<close>

theorem filter_leaves_values_unfiltered:
  "importInto id_env kv_db kv_export (strict_options\<lparr>filter_opt := Some not_key_1\<rparr>) =
     Resolved
       (kv_db\<lparr>db_tables :=
          [(''kv'', \<lparr>primKey_src = '''',
                    received = [BulkAdd [JStr ''a'', JStr ''b''] (Some [JNum 2])]\<rparr>)]\<rparr>)
       \<lparr>totalTables = 1, completedTables = 0, totalRows = 2, completedRows = 2,
        done_flag = True\<rparr>
       []"
  by (simp add: run_defs example_defs kv_db_def kv_export_def not_key_1_def)

definition checking_env :: env where
  "checking_env = \<lparr>VERSION = 1, revive = (\<lambda>v. v), engine = length_checking\<rparr>"

text \<open>
  With an engine that checks the two lengths the same call is rejected and the import
  fails as a whole: the row the filter accepts is not written either.
\<close>

lemma filter_mismatch_rejected:
  "importInto checking_env kv_db kv_export (strict_options\<lparr>filter_opt := Some not_key_1\<rparr>) =
     Failed (StorageError ''InvalidArgument'') kv_db []"
  by (simp add: run_defs example_defs kv_db_def kv_export_def not_key_1_def
      checking_env_def length_checking_def)

definition three_chunks :: JsonStream where
  "three_chunks =
     unread [header ''db1'' (t_schema 3) @ [OpenTable ''t'' True, OpenRows, AddRow (row 1)],
             [AddRow (row 2)],
             [AddRow (row 3), CloseRows, CloseTop]]"

text \<open>
  C2 asks that no row is written twice. The buffer of a table is never emptied (the
  source empties the mapped copy), so a table whose rows arrive over several chunks is
  written from its first row again on every pass: row 1 below reaches the engine in two
  calls.
\<close>

theorem first_row_written_twice:
  "importInto id_env db1 three_chunks (strict_options\<lparr>overwriteValues := True\<rparr>) =
     Resolved
       (db1\<lparr>db_tables :=
          [(''t'', \<lparr>primKey_src = ''id'',
                   received = [BulkPut [row 1] None, BulkPut [row 1, row 2] None]\<rparr>)]\<rparr>)
       \<lparr>totalTables = 1, completedTables = 0, totalRows = 3, completedRows = 3,
        done_flag = True\<rparr>
       []"
  by (simp add: run_defs example_defs three_chunks_def t_schema_def)

definition one_chunk :: JsonStream where
  "one_chunk =
     unread [header ''db1'' (t_schema 2) @
             [OpenTable ''t'' True, OpenRows, AddRow (row 1), AddRow (row 2),
              CloseRows, CloseTop]]"

text \<open>
  C3 asks that \<open>completedTables\<close> is incremented when the processed buffer is observed
  complete, so that an export delivered to completion ends with \<open>completedTables\<close>
  equal to \<open>totalTables\<close>. The source reads the flag from the mapped copy, where it is
  undefined: the one table below is delivered and written in full, and the final
  progress has \<open>completedTables = 0\<close> and \<open>totalTables = 1\<close>.
\<close>

theorem completedTables_stays_zero:
  "importInto id_env db1 one_chunk strict_options =
     Resolved
       (db1\<lparr>db_tables :=
          [(''t'', \<lparr>primKey_src = ''id'', received = [BulkAdd [row 1, row 2] None]\<rparr>)]\<rparr>)
       \<lparr>totalTables = 1, completedTables = 0, totalRows = 2, completedRows = 2,
        done_flag = True\<rparr>
       []"
  by (simp add: run_defs example_defs one_chunk_def t_schema_def)

definition four_chunks :: JsonStream where
  "four_chunks =
     unread [header ''db1'' (t_schema 4) @ [OpenTable ''t'' True, OpenRows, AddRow (row 1)],
             [AddRow (row 2)],
             [AddRow (row 3)],
             [AddRow (row 4), CloseRows, CloseTop]]"

definition never_abort :: "ImportProgress list \<Rightarrow> bool" where
  "never_abort h = False"

text \<open>
  C9 asks that \<open>completedRows\<close> never exceeds \<open>totalRows\<close>. Rows that stay in the buffer
  are counted again on every pass: for a table of four rows arriving in four chunks
  the observer is handed \<open>completedRows = 6\<close> against \<open>totalRows = 4\<close>.
\<close>

theorem completedRows_exceeds_totalRows:
  "map (\<lambda>p. (completedRows p, totalRows p))
     (observed (importInto id_env db1 four_chunks
        (strict_options\<lparr>overwriteValues := True, progressCallback := Some never_abort\<rparr>)))
   = [(0, 4), (0, 4), (1, 4), (3, 4), (6, 4)]"
  by (simp add: run_defs example_defs four_chunks_def t_schema_def never_abort_def Let_def)

subsection \<open>The observer and the transaction\<close>

text \<open>
  \<open>quiet cb obs\<close>: the observer \<open>cb\<close> has answered false on each of the invocations that
  handed it the snapshots \<open>obs\<close>. A state is \<open>calm\<close> when the observer has been quiet so
  far and no snapshot, handed over or current, says \<open>done\<close>; this holds throughout the
  import loop.
\<close>

definition quiet :: "(ImportProgress list \<Rightarrow> bool) \<Rightarrow> ImportProgress list \<Rightarrow> bool" where
  "quiet cb obs = list_all (\<lambda>k. \<not> cb (take k obs)) [1..<Suc (length obs)]"

definition calm :: "(ImportProgress list \<Rightarrow> bool) \<Rightarrow> import_state \<Rightarrow> bool" where
  "calm cb s =
     (quiet cb (st_observed s) \<and> list_all (\<lambda>p. \<not> done_flag p) (st_observed s) \<and>
      \<not> done_flag (st_progress s))"

definition fail_inv :: "(ImportProgress list \<Rightarrow> bool) \<Rightarrow> error \<times> import_state \<Rightarrow> bool" where
  "fail_inv cb x =
     (list_all (\<lambda>p. \<not> done_flag p) (st_observed (snd x)) \<and>
      (quiet cb (st_observed (snd x)) \<or> fst x = AbortedError))"

definition step_ok :: "(ImportProgress list \<Rightarrow> bool) \<Rightarrow> step \<Rightarrow> bool" where
  "step_ok cb r = (case r of Inl x \<Rightarrow> fail_inv cb x | Inr s \<Rightarrow> calm cb s)"

lemma quiet_iff: "quiet cb obs \<longleftrightarrow> (\<forall>k. 0 < k \<and> k \<le> length obs \<longrightarrow> \<not> cb (take k obs))"
proof -
  have "set [1..<Suc (length obs)] = {k. 0 < k \<and> k \<le> length obs}" by auto
  then show ?thesis unfolding quiet_def list_all_iff by blast
qed

lemma quietD: "quiet cb obs \<Longrightarrow> 0 < k \<Longrightarrow> k \<le> length obs \<Longrightarrow> \<not> cb (take k obs)"
  by (simp add: quiet_iff)

lemma quiet_snoc: "quiet cb (obs @ [p]) \<longleftrightarrow> quiet cb obs \<and> \<not> cb (obs @ [p])"
proof
  assume q: "quiet cb (obs @ [p])"
  have "\<not> cb (take k obs)" if "0 < k" "k \<le> length obs" for k
  proof -
    from that have "\<not> cb (take k (obs @ [p]))" by (intro quietD [OF q]) simp_all
    with that show ?thesis by simp
  qed
  moreover have "\<not> cb (take (Suc (length obs)) (obs @ [p]))"
    by (intro quietD [OF q]) simp_all
  ultimately show "quiet cb obs \<and> \<not> cb (obs @ [p])" by (simp add: quiet_iff)
next
  assume a: "quiet cb obs \<and> \<not> cb (obs @ [p])"
  have "\<not> cb (take k (obs @ [p]))" if "0 < k" "k \<le> length (obs @ [p])" for k
  proof (cases "k \<le> length obs")
    case True
    with a that have "\<not> cb (take k obs)" by (intro quietD) simp_all
    with True show ?thesis by simp
  next
    case False
    with that have "k = Suc (length obs)" by simp
    with a show ?thesis by simp
  qed
  then show "quiet cb (obs @ [p])" by (simp add: quiet_iff)
qed

lemma notify_ok:
  assumes "progressCallback options = Some cb" and "calm cb s"
  shows "step_ok cb (notify options s)"
  using assms by (auto simp: notify_def step_ok_def calm_def fail_inv_def quiet_snoc Let_def)

lemma store_table_names: "map fst (db_tables (store_table n t db)) = map fst (db_tables db)"
  by (auto simp: store_table_def)

lemma writeRows_Inl:
  assumes "writeRows e options te buf tbl s = Inl x"
  shows "st_observed (snd x) = st_observed s" and "st_progress (snd x) = st_progress s"
  using assms
  by (auto simp: writeRows_def Let_def split: sum.splits prod.splits if_splits)

lemma writeRows_Inr:
  assumes "writeRows e options te buf tbl s = Inr s'"
  shows "st_observed s' = st_observed s"
    and "done_flag (st_progress s') = done_flag (st_progress s)"
    and "map fst (db_tables (st_db s')) = map fst (db_tables (st_db s))"
  using assms
  by (auto simp: writeRows_def Let_def store_table_names js_map_def
      split: sum.splits prod.splits if_splits)

lemma importTable_ok:
  assumes "progressCallback options = Some cb" and "calm cb s"
  shows "step_ok cb (importTable e options d te buf s)"
proof (cases "notify options s")
  case (Inl x)
  with notify_ok [OF assms] show ?thesis
    by (simp add: importTable_def step_ok_def)
next
  case (Inr s1)
  with notify_ok [OF assms] have c1: "calm cb s1" by (simp add: step_ok_def)
  have w: "step_ok cb (writeRows e options te buf tbl s1)" for tbl
  proof (cases "writeRows e options te buf tbl s1")
    case (Inl x)
    with writeRows_Inl [OF Inl] c1 show ?thesis
      by (simp add: step_ok_def fail_inv_def calm_def)
  next
    case w: (Inr s')
    with writeRows_Inr(1,2) [OF w] c1 show ?thesis
      by (simp add: step_ok_def calm_def)
  qed
  have f: "step_ok cb (Inl (err, s1))" for err
    using c1 by (simp add: step_ok_def fail_inv_def calm_def)
  have g: "step_ok cb (Inr s1)"
    using c1 by (simp add: step_ok_def)
  show ?thesis
  proof (cases "db_table (st_db s1) (tableName te)")
    case (Inl err)
    with Inr f show ?thesis by (simp add: importTable_def)
  next
    case table: (Inr table)
    with Inr f g w show ?thesis
      by (simp add: importTable_def Let_def split: option.splits list.splits)
  qed
qed

lemma importTables_ok:
  assumes "progressCallback options = Some cb" and "calm cb s"
  shows "step_ok cb (importTables e options d q s)"
  using assms(2)
proof (induction q arbitrary: s)
  case Nil
  then show ?case by (simp add: step_ok_def)
next
  case (Cons te q)
  show ?case
  proof (cases "rows te")
    case None
    with Cons.prems show ?thesis by (simp add: step_ok_def)
  next
    case (Some buf)
    show ?thesis
    proof (cases "complete buf \<and> items buf = []")
      case True
      with Some Cons show ?thesis by simp
    next
      case False
      have one: "step_ok cb (importTable e options d te buf s)"
        using assms(1) Cons.prems by (rule importTable_ok)
      show ?thesis
      proof (cases "importTable e options d te buf s")
        case (Inl x)
        with one Some False show ?thesis by (auto simp: step_ok_def)
      next
        case (Inr s1)
        with one have "calm cb s1" by (simp add: step_ok_def)
        then have "step_ok cb (importTables e options d q s1)" by (rule Cons.IH)
        with Inr Some False show ?thesis by auto
      qed
    qed
  qed
qed

lemma importAll_ok:
  "progressCallback options = Some cb \<Longrightarrow> calm cb s \<Longrightarrow>
   step_ok cb (importAll e options n js s)"
proof (induction e options n js s rule: importAll.induct)
  case (1 e options n js s)
  note cb = "1.prems"(1) and calm = "1.prems"(2)
  show ?case
  proof (cases "file_data (result js)")
    case None
    with calm show ?thesis
      by (subst importAll.simps) (simp add: step_ok_def fail_inv_def calm_def)
  next
    case d: (Some d)
    show ?thesis
    proof (cases "data d")
      case None
      with d calm show ?thesis
        by (subst importAll.simps) (simp add: step_ok_def fail_inv_def calm_def)
    next
      case q: (Some q)
      have pass: "step_ok cb (importTables e options d q s)"
        using cb calm by (rule importTables_ok)
      show ?thesis
      proof (cases "importTables e options d q s")
        case (Inl x)
        with d q pass show ?thesis
          by (subst importAll.simps) (simp add: step_ok_def)
      next
        case s1: (Inr s1)
        with pass have c1: "calm cb s1" by (simp add: step_ok_def)
        show ?thesis
        proof (cases "dropCompleted q")
          case (Inl err)
          with d q s1 c1 show ?thesis
            by (subst importAll.simps) (simp add: step_ok_def fail_inv_def calm_def)
        next
          case q': (Inr q')
          show ?thesis
            using d q s1 q' c1 "1.IH" [OF d q s1 q' refl _ refl _ cb c1]
            by (subst importAll.simps) (auto simp: step_ok_def Let_def)
        qed
      qed
    qed
  qed
qed


lemma notify_db: "notify options s = Inl x \<Longrightarrow> st_db (snd x) = st_db s"
  by (auto simp: notify_def Let_def split: option.splits if_splits)

lemma transaction_ok: "step_ok cb r \<Longrightarrow> step_ok cb (transaction db r)"
  by (auto simp: transaction_def step_ok_def fail_inv_def split: sum.splits)

lemma transaction_db: "transaction db r = Inl x \<Longrightarrow> st_db (snd x) = db"
  by (auto simp: transaction_def split: sum.splits)

lemma fail_inv_aborted:
  assumes "fail_inv cb x" and "0 < k" and "k \<le> length (st_observed (snd x))"
    and "cb (take k (st_observed (snd x)))"
  shows "fst x = AbortedError \<and> \<not> done_flag (st_observed (snd x) ! (k - 1))"
proof -
  from assms have "\<not> quiet cb (st_observed (snd x))" by (auto simp: quiet_iff)
  with assms(1) have "fst x = AbortedError" by (simp add: fail_inv_def)
  moreover from assms have "st_observed (snd x) ! (k - 1) \<in> set (st_observed (snd x))"
    by simp
  with assms(1) have "\<not> done_flag (st_observed (snd x) ! (k - 1))"
    by (simp add: fail_inv_def list_all_iff)
  ultimately show ?thesis by simp
qed

lemma final_notify:
  assumes cb: "progressCallback options = Some cb" and "calm cb s2"
    and k: "0 < k" "k \<le> length (st_observed s')" "cb (take k (st_observed s'))"
    and s': "s' = s3\<lparr>st_observed := st_observed s2 @ [st_progress s3]\<rparr>"
    and s3: "s3 = s2\<lparr>st_progress := (st_progress s2)\<lparr>done_flag := True\<rparr>\<rparr>"
  shows "notify options s3 = Inl (AbortedError, s') \<and> done_flag (st_observed s' ! (k - 1))"
proof -
  from assms(2) have q: "quiet cb (st_observed s2)" by (simp add: calm_def)
  have "k = Suc (length (st_observed s2))"
  proof (rule ccontr)
    assume "k \<noteq> Suc (length (st_observed s2))"
    with k s' s3 have le: "k \<le> length (st_observed s2)" by simp
    with q k(1) have "\<not> cb (take k (st_observed s2))" by (intro quietD)
    with le k(3) s' s3 show False by simp
  qed
  with k(3) s' s3 have "cb (st_observed s2 @ [st_progress s3])" by simp
  with cb s' s3 \<open>k = Suc (length (st_observed s2))\<close> show ?thesis
    by (simp add: notify_def Let_def nth_append)
qed

text \<open>
  The invocations before the final one. In transactional mode, if the observer answers
  true on its \<open>k\<close>-th invocation, \<open>importInto\<close> fails with \<open>AbortedError\<close>; and if that
  invocation is the one before any row is written or a per-batch one (its snapshot
  does not say \<open>done\<close>), the database left behind is the one \<open>importInto\<close> was given.
\<close>

theorem abort_rolls_back:
  assumes cb: "progressCallback options = Some cb" and tx: "\<not> noTransaction options"
    and k: "0 < k" "k \<le> length (observed (importInto e db js options))"
      "cb (take k (observed (importInto e db js options)))"
  shows "is_Failed (importInto e db js options) \<and>
         failure (importInto e db js options) = AbortedError \<and>
         (\<not> done_flag (observed (importInto e db js options) ! (k - 1)) \<longrightarrow>
            db_after (importInto e db js options) = db)"
proof -
  let ?out = "importInto e db js options"
  let ?n = "chunk_size options"
  from k have nonempty: "observed ?out \<noteq> []" by auto
  then obtain jsonStream dbExport ts
    where load: "loadUntilWeGotEnoughData e js ?n = Inr jsonStream"
      and dbe: "file_data (result jsonStream) = Some dbExport"
      and nm: "\<not> (\<not> acceptNameDiff options \<and> Some (db_name db) \<noteq> databaseName dbExport)"
      and vs: "\<not> (\<not> acceptVersionDiff options \<and> Some (db_verno db) \<noteq> databaseVersion dbExport)"
      and ts: "tables dbExport = Some ts"
    by (auto simp: importInto_def Let_def split: sum.splits option.splits if_splits)
  define s0 where "s0 =
    \<lparr>st_db = db,
     st_progress = \<lparr>totalTables = length ts, completedTables = 0,
                    totalRows = foldl (\<lambda>p c. p + rowCount c) 0 ts, completedRows = 0,
                    done_flag = False\<rparr>,
     st_observed = []\<rparr>"
  have out: "?out =
    (case notify options s0 of
       Inl x \<Rightarrow> failed x
     | Inr s1 \<Rightarrow>
         (case transaction db (importAll e options ?n jsonStream s1) of
            Inl x \<Rightarrow> failed x
          | Inr s2 \<Rightarrow>
              (case notify options (s2\<lparr>st_progress := (st_progress s2)\<lparr>done_flag := True\<rparr>\<rparr>) of
                 Inl x \<Rightarrow> failed x
               | Inr s4 \<Rightarrow> Resolved (st_db s4) (st_progress s4) (st_observed s4))))"
    using load dbe nm vs ts tx
    by (auto simp: importInto_def Let_def s0_def split: sum.splits)
  have "calm cb s0" by (simp add: calm_def s0_def quiet_def)
  with cb have n0: "step_ok cb (notify options s0)" by (rule notify_ok)
  show ?thesis
  proof (cases "notify options s0")
    case (Inl x)
    with out have o: "?out = failed x" by simp
    from n0 Inl have "fail_inv cb x" by (simp add: step_ok_def)
    from fail_inv_aborted [OF this, of k] k o notify_db [OF Inl]
    show ?thesis by (simp add: failed_def s0_def)
  next
    case s1: (Inr s1)
    with n0 have c1: "calm cb s1" by (simp add: step_ok_def)
    have t: "step_ok cb (transaction db (importAll e options ?n jsonStream s1))"
      by (intro transaction_ok importAll_ok cb c1)
    show ?thesis
    proof (cases "transaction db (importAll e options ?n jsonStream s1)")
      case (Inl x)
      with out s1 have o: "?out = failed x" by simp
      from t Inl have "fail_inv cb x" by (simp add: step_ok_def)
      from fail_inv_aborted [OF this, of k] k o transaction_db [OF Inl]
      show ?thesis by (simp add: failed_def)
    next
      case s2: (Inr s2)
      with t have c2: "calm cb s2" by (simp add: step_ok_def)
      define s3 where "s3 = s2\<lparr>st_progress := (st_progress s2)\<lparr>done_flag := True\<rparr>\<rparr>"
      define s' where "s' = s3\<lparr>st_observed := st_observed s2 @ [st_progress s3]\<rparr>"
      have obs: "observed ?out = st_observed s'"
        using out s1 s2 cb
        by (simp add: notify_def Let_def failed_def s3_def s'_def)
      from final_notify [OF cb c2 _ _ _ s'_def s3_def, of k] k obs
      have "notify options s3 = Inl (AbortedError, s')"
        and "done_flag (st_observed s' ! (k - 1))" by simp_all
      with out s1 s2 obs show ?thesis by (simp add: failed_def s3_def)
    qed
  qed
qed

definition abort_when_done :: "ImportProgress list \<Rightarrow> bool" where
  "abort_when_done h = done_flag (last h)"

definition abort_third :: "ImportProgress list \<Rightarrow> bool" where
  "abort_third h = (length h = 3)"

definition two_db :: Dexie where
  "two_db = \<lparr>db_name = ''db1'', db_verno = 1,
             db_tables = [(''t'', \<lparr>primKey_src = ''id'', received = []\<rparr>),
                          (''u'', \<lparr>primKey_src = ''id'', received = []\<rparr>)]\<rparr>"

definition two_tables :: JsonStream where
  "two_tables =
     unread [header ''db1'' [\<lparr>name = ''t'', schema = ''id'', rowCount = 1\<rparr>,
                             \<lparr>name = ''u'', schema = ''id'', rowCount = 1\<rparr>] @
             [OpenTable ''t'' True, OpenRows, AddRow (row 1), CloseRows,
              OpenTable ''u'' True, OpenRows, AddRow (row 2), CloseRows, CloseTop]]"


lemma two_tables_aborted:
  "importInto id_env two_db two_tables (strict_options\<lparr>progressCallback := Some abort_third\<rparr>) =
     Failed AbortedError two_db
       [\<lparr>totalTables = 2, completedTables = 0, totalRows = 2, completedRows = 0,
         done_flag = False\<rparr>,
        \<lparr>totalTables = 2, completedTables = 0, totalRows = 2, completedRows = 0,
         done_flag = False\<rparr>,
        \<lparr>totalTables = 2, completedTables = 0, totalRows = 2, completedRows = 1,
         done_flag = False\<rparr>]"
  by (simp add: run_defs example_defs two_db_def two_tables_def abort_third_def Let_def)

theorem abort_rolls_back_witness:
  "is_Failed (importInto id_env two_db two_tables
       (strict_options\<lparr>progressCallback := Some abort_third\<rparr>)) \<and>
   failure (importInto id_env two_db two_tables
       (strict_options\<lparr>progressCallback := Some abort_third\<rparr>)) = AbortedError \<and>
   db_after (importInto id_env two_db two_tables
       (strict_options\<lparr>progressCallback := Some abort_third\<rparr>)) = two_db"
proof -
  let ?options = "strict_options\<lparr>progressCallback := Some abort_third\<rparr>"
  have 1: "progressCallback ?options = Some abort_third" by simp
  have 2: "\<not> noTransaction ?options" by (simp add: strict_options_def)
  have 3: "(0::nat) < 3" by simp
  have 4: "3 \<le> length (observed (importInto id_env two_db two_tables ?options))"
    by (simp add: two_tables_aborted)
  have 5: "abort_third (take 3 (observed (importInto id_env two_db two_tables ?options)))"
    by (simp add: two_tables_aborted abort_third_def)
  have 6: "\<not> done_flag (observed (importInto id_env two_db two_tables ?options) ! (3 - 1))"
    by (simp add: two_tables_aborted)
  from abort_rolls_back [OF 1 2 3 4 5] 6 show ?thesis by blast
qed

text \<open>
  C4 asks that an abort on any invocation of the observer, the final one with
  \<open>done = true\<close> included, fails the import with \<open>AbortedError\<close> and leaves the database
  without any row of the import. The source repeats the abort check of the loop after
  \<^verbatim>\<open>db.transaction(...)\<close> has returned: an observer that answers true on the final
  invocation makes the import fail with \<open>AbortedError\<close>, and the rows stay written.
\<close>

theorem final_abort_keeps_rows:
  "importInto id_env db1 one_chunk (strict_options\<lparr>progressCallback := Some abort_when_done\<rparr>) =
     Failed AbortedError
       (db1\<lparr>db_tables :=
          [(''t'', \<lparr>primKey_src = ''id'', received = [BulkAdd [row 1, row 2] None]\<rparr>)]\<rparr>)
       [\<lparr>totalTables = 1, completedTables = 0, totalRows = 2, completedRows = 0,
         done_flag = False\<rparr>,
        \<lparr>totalTables = 1, completedTables = 0, totalRows = 2, completedRows = 0,
         done_flag = False\<rparr>,
        \<lparr>totalTables = 1, completedTables = 0, totalRows = 2, completedRows = 2,
         done_flag = True\<rparr>]"
  by (simp add: run_defs example_defs one_chunk_def t_schema_def abort_when_done_def Let_def)


subsection \<open>The pending-table queue\<close>



subsection \<open>Tables the target lacks\<close>

definition xt_schema :: "TableSchema list" where
  "xt_schema = [\<lparr>name = ''x'', schema = ''id'', rowCount = 1\<rparr>,
                \<lparr>name = ''t'', schema = ''id'', rowCount = 1\<rparr>]"

definition xt_stream :: JsonStream where
  "xt_stream =
     unread [header ''db1'' xt_schema @
             [OpenTable ''x'' True, OpenRows, AddRow (row 1), CloseRows,
              OpenTable ''t'' True, OpenRows, AddRow (row 2), CloseRows, CloseTop]]"

text \<open>
  C5 asks that an export with a table the target lacks imports with
  \<open>acceptMissingTables\<close>, that table skipped and every other one imported, and fails
  with \<open>MissingTableError\<close> without the option. The source tests \<^verbatim>\<open>!table\<close> for this
  (lines 94 to 99), but \<^verbatim>\<open>db.table\<close> has thrown before (line 92): the export below
  lists and delivers the tables \<open>x\<close> and \<open>t\<close>, the target has \<open>t\<close> only, and the import
  fails with \<open>InvalidTableError\<close>, nothing written, with the option and without it.
\<close>

theorem missing_table_never_tolerated:
  "importInto id_env db1 xt_stream (strict_options\<lparr>acceptMissingTables := True\<rparr>) =
     Failed (InvalidTableError ''x'') db1 [] \<and>
   importInto id_env db1 xt_stream strict_options =
     Failed (InvalidTableError ''x'') db1 []"
  by (simp add: run_defs example_defs xt_schema_def xt_stream_def)


subsection \<open>Entries the manifest lacks\<close>

definition has_rows :: "TableExport \<Rightarrow> bool" where
  "has_rows te = (rows te \<noteq> None)"

text \<open>
  Two names for parts of \<open>importInto\<close>: the state it starts the loop from, and the
  choice between running \<open>importAll\<close> directly and inside a transaction.
\<close>

definition start :: "Dexie \<Rightarrow> TableSchema list \<Rightarrow> import_state" where
  "start db ts =
     \<lparr>st_db = db,
      st_progress =
        \<lparr>totalTables = length ts, completedTables = 0,
         totalRows = foldl (\<lambda>p c. p + rowCount c) 0 ts, completedRows = 0,
         done_flag = False\<rparr>,
      st_observed = []\<rparr>"

definition body :: "Dexie \<Rightarrow> ImportOptions \<Rightarrow> step \<Rightarrow> step" where
  "body db options r = (if noTransaction options then r else transaction db r)"

text \<open>
  The rounds of the outer loop. \<open>reached e options n js0 s0 js s\<close>: the loop of
  \<open>importAll\<close>, started on the stream \<open>js0\<close> in the state \<open>s0\<close>, begins a round on the
  stream \<open>js\<close> in the state \<open>s\<close>. The second rule is one round that ends with the
  loop going on: the pass and the trimming of the queue succeed, the stream is neither
  done nor at its end, and it is neither after the pull.
\<close>

inductive reached ::
  "env \<Rightarrow> ImportOptions \<Rightarrow> nat \<Rightarrow> JsonStream \<Rightarrow> import_state \<Rightarrow> JsonStream \<Rightarrow> import_state \<Rightarrow> bool"
  for e options n js0 s0 where
    first: "reached e options n js0 s0 js0 s0"
  | again:
      "reached e options n js0 s0 js s \<Longrightarrow>
       file_data (result js) = Some d \<Longrightarrow> data d = Some q \<Longrightarrow>
       importTables e options d q s = Inr s1 \<Longrightarrow>
       dropCompleted q = Inr q' \<Longrightarrow>
       \<not> stream_done (on_queue (\<lambda>_. q') js) \<Longrightarrow> \<not> stream_eof (on_queue (\<lambda>_. q') js) \<Longrightarrow>
       \<not> stream_done (pull n (on_queue (\<lambda>_. q') js)) \<Longrightarrow>
       \<not> stream_eof (pull n (on_queue (\<lambda>_. q') js)) \<Longrightarrow>
       reached e options n js0 s0 (pull n (on_queue (\<lambda>_. q') js)) s1"

lemma importAll_reached:
  "reached e options n js0 s0 js s \<Longrightarrow>
   importAll e options n js0 s0 = importAll e options n js s"
proof (induction rule: reached.induct)
  case first
  show ?case by simp
next
  case (again js s d q s1 q')
  have "importAll e options n js s = importAll e options n (pull n (on_queue (\<lambda>_. q') js)) s1"
    using again.hyps(2-9) by (subst importAll.simps) (simp add: Let_def)
  with again.IH show ?case by simp
qed

lemma importTables_append:
  "list_all has_rows pre \<Longrightarrow>
   importTables e options d (pre @ post) s =
     (case importTables e options d pre s of
        Inl x \<Rightarrow> Inl x
      | Inr s' \<Rightarrow> importTables e options d post s')"
  by (induction pre arbitrary: s) (auto simp: has_rows_def split: sum.splits)

lemma importTable_unlisted:
  assumes "tables d = Some ts" and "filter (\<lambda>t. name t = tableName te) ts = []"
  shows "importTable e options d te buf s =
           (case notify options s of
              Inl x \<Rightarrow> Inl x
            | Inr s1 \<Rightarrow>
                (case db_table (st_db s1) (tableName te) of
                   Inl err \<Rightarrow> Inl (err, s1)
                 | Inr table \<Rightarrow> Inl (TypeError, s1)))"
  using assms by (simp add: importTable_def Let_def split: sum.splits)

lemma importAll_first_pass_fails:
  assumes "file_data (result js) = Some d" and "data d = Some q"
    and "importTables e options d q s = Inl x"
  shows "importAll e options n js s = Inl x"
  using assms by (subst importAll.simps) simp

lemma importInto_run:
  assumes "loadUntilWeGotEnoughData e js (chunk_size options) = Inr js'"
    and "file_data (result js') = Some d"
    and "acceptNameDiff options \<or> Some (db_name db) = databaseName d"
    and "acceptVersionDiff options \<or> Some (db_verno db) = databaseVersion d"
    and "tables d = Some ts"
  shows "importInto e db js options =
    (case notify options (start db ts) of
       Inl x \<Rightarrow> failed x
     | Inr s1 \<Rightarrow>
         (case body db options (importAll e options (chunk_size options) js' s1) of
            Inl x \<Rightarrow> failed x
          | Inr s2 \<Rightarrow>
              (case notify options (s2\<lparr>st_progress := (st_progress s2)\<lparr>done_flag := True\<rparr>\<rparr>) of
                 Inl x \<Rightarrow> failed x
               | Inr s4 \<Rightarrow> Resolved (st_db s4) (st_progress s4) (st_observed s4))))"
  using assms
  by (auto simp: importInto_def Let_def start_def body_def split: sum.splits)

lemma importInto_early:
  assumes "\<not> (\<exists>js' d ts.
      loadUntilWeGotEnoughData e js (chunk_size options) = Inr js' \<and>
      file_data (result js') = Some d \<and>
      (acceptNameDiff options \<or> Some (db_name db) = databaseName d) \<and>
      (acceptVersionDiff options \<or> Some (db_verno db) = databaseVersion d) \<and>
      tables d = Some ts)"
  shows "\<exists>err. importInto e db js options = Failed err db []"
  using assms
  by (auto simp: importInto_def Let_def split: sum.splits option.splits)

lemma loaded_stream:
  "loadUntilWeGotEnoughData e js n = Inr js' \<Longrightarrow> js' = load_loop n js"
  by (auto simp: loadUntilWeGotEnoughData_def Let_def split: if_splits option.splits)

lemma is_Failed_failed: "is_Failed (failed x)"
  by (simp add: failed_def)

lemma importInto_fails:
  assumes d0: "file_data (result (load_loop (chunk_size options) js)) = Some d0"
    and ts0: "tables d0 = Some ts0"
    and s0: "notify options (start db ts0) = Inr s0"
    and fails: "importAll e options (chunk_size options) (load_loop (chunk_size options) js) s0 = Inl x"
  shows "is_Failed (importInto e db js options)"
proof (cases "\<exists>js' d ts.
      loadUntilWeGotEnoughData e js (chunk_size options) = Inr js' \<and>
      file_data (result js') = Some d \<and>
      (acceptNameDiff options \<or> Some (db_name db) = databaseName d) \<and>
      (acceptVersionDiff options \<or> Some (db_verno db) = databaseVersion d) \<and>
      tables d = Some ts")
  case False
  from importInto_early [OF this] show ?thesis by auto
next
  case True
  then obtain js' d ts
    where load: "loadUntilWeGotEnoughData e js (chunk_size options) = Inr js'"
      and d: "file_data (result js') = Some d"
      and nm: "acceptNameDiff options \<or> Some (db_name db) = databaseName d"
      and vs: "acceptVersionDiff options \<or> Some (db_verno db) = databaseVersion d"
      and ts: "tables d = Some ts"
    by blast
  from load have js': "js' = load_loop (chunk_size options) js" by (rule loaded_stream)
  with d d0 ts ts0 have "ts = ts0" by simp
  note run = importInto_run [OF load d nm vs ts]
  from fails js' have "\<exists>y. body db options (importAll e options (chunk_size options) js' s0) = Inl y"
    by (cases x) (simp add: body_def transaction_def)
  then obtain y where "body db options (importAll e options (chunk_size options) js' s0) = Inl y" ..
  with run s0 \<open>ts = ts0\<close> show ?thesis by (simp add: is_Failed_failed)
qed

text \<open>
  C10, as the code has it. Let a round of the outer loop begin with a queue that holds
  an entry whose table name the schema manifest lacks, with rows that are not both
  complete and empty, behind entries that all have rows. Then the pass over the queue
  either fails on an earlier entry, or is aborted by the observer, or fails at this
  entry: with \<open>InvalidTableError\<close>, thrown by \<^verbatim>\<open>db.table\<close>, when the target lacks the
  table too, and with the \<open>TypeError\<close> of the lookup otherwise. Either way this is
  before the test of \<^verbatim>\<open>!table\<close> and whatever the options are, and \<open>importInto\<close> fails.
\<close>

theorem unlisted_table_fails:
  assumes d0: "file_data (result (load_loop (chunk_size options) js)) = Some d0"
    and ts0: "tables d0 = Some ts0"
    and s0: "notify options (start db ts0) = Inr s0"
    and round: "reached e options (chunk_size options) (load_loop (chunk_size options) js) s0 jsk sk"
    and d: "file_data (result jsk) = Some d"
    and q: "data d = Some (pre @ te # post)"
    and pre: "list_all has_rows pre"
    and buf: "rows te = Some buf" "\<not> (complete buf \<and> items buf = [])"
    and ts: "tables d = Some ts" "filter (\<lambda>t. name t = tableName te) ts = []"
  shows "importTables e options d (pre @ te # post) sk =
           (case importTables e options d pre sk of
              Inl x \<Rightarrow> Inl x
            | Inr s' \<Rightarrow>
                (case notify options s' of
                   Inl x \<Rightarrow> Inl x
                 | Inr s1 \<Rightarrow>
                     (case db_table (st_db s1) (tableName te) of
                        Inl err \<Rightarrow> Inl (InvalidTableError (tableName te), s1)
                      | Inr table \<Rightarrow> Inl (TypeError, s1)))) \<and>
         is_Failed (importInto e db js options)"
proof -
  let ?n = "chunk_size options"
  have lookup: "db_table dbx m = Inl err \<Longrightarrow> err = InvalidTableError m" for dbx m err
    by (auto simp: db_table_def split: option.splits)
  have pass: "importTables e options d (pre @ te # post) sk =
           (case importTables e options d pre sk of
              Inl x \<Rightarrow> Inl x
            | Inr s' \<Rightarrow>
                (case notify options s' of
                   Inl x \<Rightarrow> Inl x
                 | Inr s1 \<Rightarrow>
                     (case db_table (st_db s1) (tableName te) of
                        Inl err \<Rightarrow> Inl (InvalidTableError (tableName te), s1)
                      | Inr table \<Rightarrow> Inl (TypeError, s1))))"
    using buf importTable_unlisted [OF ts] lookup
    by (auto simp: importTables_append [OF pre] split: sum.splits)
  have "\<exists>x. importTables e options d (pre @ te # post) sk = Inl x"
    unfolding pass by (auto split: sum.splits)
  then obtain x where "importTables e options d (pre @ te # post) sk = Inl x" ..
  with d q have "importAll e options ?n jsk sk = Inl x"
    by (rule importAll_first_pass_fails)
  with importAll_reached [OF round] have "importAll e options ?n (load_loop ?n js) s0 = Inl x"
    by simp
  with d0 ts0 s0 have "is_Failed (importInto e db js options)"
    by (rule importInto_fails)
  with pass show ?thesis by simp
qed


definition late_stream :: JsonStream where
  "late_stream =
     unread [header ''db1'' [],
             [OpenTable ''t'' True, OpenRows, AddRow (row 1)],
             [CloseRows, CloseTop]]"

definition late_export :: "TableExport list \<Rightarrow> DatabaseExport" where
  "late_export q =
     \<lparr>databaseName = Some ''db1'', databaseVersion = Some 1, tables = Some [],
      data = Some q\<rparr>"

definition late_round :: "TableExport list \<Rightarrow> parse_event list list \<Rightarrow> JsonStream" where
  "late_round q chunks =
     \<lparr>result = \<lparr>formatName = Some ''dexie'', formatVersion = Some 1,
                 file_data = Some (late_export q)\<rparr>,
      pending = chunks, finished = False\<rparr>"

definition late_entry :: TableExport where
  "late_entry = \<lparr>tableName = ''t'', inbound = True,
                  rows = Some \<lparr>items = [row 1], complete = False\<rparr>\<rparr>"

lemmas late_defs = late_stream_def late_export_def late_round_def late_entry_def

lemma late_loaded:
  "load_loop (chunk_size (strict_options\<lparr>acceptMissingTables := True\<rparr>)) late_stream =
     late_round [] [[OpenTable ''t'' True, OpenRows, AddRow (row 1)], [CloseRows, CloseTop]]"
  by (simp add: run_defs example_defs late_defs)

lemma late_second_round:
  "reached id_env (strict_options\<lparr>acceptMissingTables := True\<rparr>)
     (chunk_size (strict_options\<lparr>acceptMissingTables := True\<rparr>))
     (late_round [] [[OpenTable ''t'' True, OpenRows, AddRow (row 1)], [CloseRows, CloseTop]])
     (start db1 [])
     (late_round [late_entry] [[CloseRows, CloseTop]])
     (start db1 [])"
proof -
  let ?options = "strict_options\<lparr>acceptMissingTables := True\<rparr>"
  let ?js = "late_round [] [[OpenTable ''t'' True, OpenRows, AddRow (row 1)], [CloseRows, CloseTop]]"
  have next_stream: "pull (chunk_size ?options) (on_queue (\<lambda>_. []) ?js) =
      late_round [late_entry] [[CloseRows, CloseTop]]"
    by (simp add: run_defs late_defs)
  have "reached id_env ?options (chunk_size ?options) ?js (start db1 [])
      (pull (chunk_size ?options) (on_queue (\<lambda>_. []) ?js)) (start db1 [])"
  proof (rule reached.again [OF reached.first, where d = "late_export []" and q = "[]"])
    show "file_data (result ?js) = Some (late_export [])" by (simp add: late_round_def)
    show "data (late_export []) = Some []" by (simp add: late_export_def)
    show "importTables id_env ?options (late_export []) [] (start db1 []) = Inr (start db1 [])"
      by simp
    show "dropCompleted [] = Inr []" by simp
    show "\<not> stream_done (on_queue (\<lambda>_. []) ?js)" "\<not> stream_eof (on_queue (\<lambda>_. []) ?js)"
      by (simp_all add: run_defs late_defs)
    show "\<not> stream_done (pull (chunk_size ?options) (on_queue (\<lambda>_. []) ?js))"
      "\<not> stream_eof (pull (chunk_size ?options) (on_queue (\<lambda>_. []) ?js))"
      unfolding next_stream by (simp_all add: stream_done_def stream_eof_def late_round_def)
  qed
  then show ?thesis unfolding next_stream .
qed

theorem unlisted_table_fails_witness:
  "importTables id_env (strict_options\<lparr>acceptMissingTables := True\<rparr>) (late_export [late_entry])
     [late_entry] (start db1 []) = Inl (TypeError, start db1 []) \<and>
   is_Failed (importInto id_env db1 late_stream (strict_options\<lparr>acceptMissingTables := True\<rparr>))"
proof -
  let ?options = "strict_options\<lparr>acceptMissingTables := True\<rparr>"
  let ?js0 = "late_round [] [[OpenTable ''t'' True, OpenRows, AddRow (row 1)], [CloseRows, CloseTop]]"
  let ?jsk = "late_round [late_entry] [[CloseRows, CloseTop]]"
  have d0: "file_data (result (load_loop (chunk_size ?options) late_stream)) = Some (late_export [])"
    unfolding late_loaded by (simp add: late_round_def)
  have ts0: "tables (late_export []) = Some []" by (simp add: late_export_def)
  have s0: "notify ?options (start db1 []) = Inr (start db1 [])"
    by (simp add: notify_def strict_options_def)
  have round: "reached id_env ?options (chunk_size ?options)
      (load_loop (chunk_size ?options) late_stream) (start db1 []) ?jsk (start db1 [])"
    unfolding late_loaded by (rule late_second_round)
  have d: "file_data (result ?jsk) = Some (late_export [late_entry])"
    by (simp add: late_round_def)
  have q: "data (late_export [late_entry]) = Some ([] @ late_entry # [])"
    by (simp add: late_export_def)
  have pre: "list_all has_rows []" by simp
  have buf: "rows late_entry = Some \<lparr>items = [row 1], complete = False\<rparr>"
    "\<not> (complete \<lparr>items = [row 1], complete = False\<rparr> \<and>
        items \<lparr>items = [row 1], complete = False\<rparr> = [])"
    by (simp_all add: late_entry_def)
  have ts: "tables (late_export [late_entry]) = Some []"
    "filter (\<lambda>t. name t = tableName late_entry) [] = []"
    by (simp_all add: late_export_def)
  have present: "db_table (st_db (start db1 [])) (tableName late_entry)
      = Inr (Some \<lparr>primKey_src = ''id'', received = []\<rparr>)"
    by (simp add: start_def db1_def db_table_def late_entry_def)
  from unlisted_table_fails [OF d0 ts0 s0 round d q pre buf ts] s0 present
  show ?thesis by simp
qed

definition unlisted_empty_stream :: JsonStream where
  "unlisted_empty_stream =
     unread [header ''db1'' [] @ [OpenTable ''x'' True, OpenRows, CloseRows, CloseTop]]"

text \<open>
  C10 as stated has every export with such an entry fail. An entry whose rows are
  complete and empty is passed over before \<^verbatim>\<open>db.table\<close> and the lookup: the export
  below has a table the manifest lacks and imports.
\<close>

theorem unlisted_empty_table_imports:
  "importInto id_env db1 unlisted_empty_stream strict_options =
     Resolved db1
       \<lparr>totalTables = 0, completedTables = 0, totalRows = 0, completedRows = 0,
        done_flag = True\<rparr> []"
  by (simp add: run_defs example_defs unlisted_empty_stream_def)

end
